theory Spec2Isabelle
  imports Main "HOL-Library.Word" "HOL-Library.Monad_Syntax"
begin

section \<open>The ESP32-C2 MQTT power switch: data model\<close>

text \<open>
  The sketch \<^verbatim>\<open>MQTT_LINGDONGKAIGUAN.ino\<close> keeps its whole state in global variables and
  in three library objects (\<^verbatim>\<open>Preferences\<close>, \<^verbatim>\<open>WiFiManager\<close>, \<^verbatim>\<open>PubSubClient\<close>).
  The embedding threads one record through every function. A C string held in a
  \<^verbatim>\<open>char[n]\<close> buffer is the list of its characters before the terminating NUL, so a
  buffer of \<open>n\<close> bytes holds a string of fewer than \<open>n\<close> characters. Serial output is not
  modelled.
\<close>

datatype pin_mode = INPUT_PULLUP | OUTPUT

text \<open>What the device does to the outside world, in the order it does it.\<close>

datatype event =
    Mode int pin_mode
  | Write int bool
  | Delay nat
  | Handshake string string string
  | Subscribe string
  | Publish string string
  | ForgetWiFi

record device =
  mqtt_server :: string
  mqtt_port :: string
  mqtt_user :: string
  mqtt_password :: string
  mqtt_topic :: string
  button_pin :: string
  led_pin :: string
  power_pin :: string
  firstMessageSent :: bool
  shouldSaveConfig :: bool
  buttonPressTime :: "32 word"
  longPressActive :: bool
  prefs :: "(string \<times> bool) option"
  nvs :: "string \<Rightarrow> (string \<rightharpoonup> string)"
  wifi_saved :: bool
  client_connected :: bool
  pins :: "int \<Rightarrow> bool"
  pin_modes :: "int \<rightharpoonup> pin_mode"
  clock :: "32 word"
  trace :: "event list"

text \<open>
  \<^verbatim>\<open>ESP.restart()\<close> does not return: a function that reaches it ends the boot. The state
  carried by \<open>Restarts\<close> is the state at the moment of the restart; what survives it is the
  flash (\<open>nvs\<close>) and the stored network association (\<open>wifi_saved\<close>).
\<close>

datatype outcome = Returns device | Restarts device

subsection \<open>Compile-time constants (lines 39--46)\<close>

definition FIRMWARE_VERSION :: string where
  "FIRMWARE_VERSION = ''1.0.0''"

definition VERSION_KEY :: string where
  "VERSION_KEY = ''fw_version''"

definition DEFAULT_LED_PIN :: int where
  "DEFAULT_LED_PIN = 8"

definition RESET_HOLD_TIME :: "32 word" where
  "RESET_HOLD_TIME = 5000"

definition HIGH :: bool where
  "HIGH = True"

definition LOW :: bool where
  "LOW = False"

text \<open>
  The state in which \<^verbatim>\<open>setup()\<close> starts: every global has its initialiser (lines 49--72),
  the \<^verbatim>\<open>Preferences\<close> handle is closed, the client is disconnected. The flash contents,
  the stored network association and the pin levels are whatever the boot finds.
\<close>

definition power_up :: "(string \<Rightarrow> (string \<rightharpoonup> string)) \<Rightarrow> bool \<Rightarrow> (int \<Rightarrow> bool) \<Rightarrow> device" where
  "power_up flash wifi levels =
     \<lparr> mqtt_server = '''', mqtt_port = ''1883'', mqtt_user = '''', mqtt_password = '''',
       mqtt_topic = ''esp32'', button_pin = ''9'', led_pin = ''8'', power_pin = ''7'',
       firstMessageSent = False, shouldSaveConfig = False,
       buttonPressTime = 0, longPressActive = False,
       prefs = None, nvs = flash, wifi_saved = wifi, client_connected = False,
       pins = levels, pin_modes = Map.empty, clock = 0, trace = [] \<rparr>"

definition restart :: "device \<Rightarrow> device" where
  "restart s = power_up (nvs s) (wifi_saved s) (pins s)"

text \<open>The sizes of the configuration buffers (lines 49--58).\<close>

definition fits :: "device \<Rightarrow> bool" where
  "fits s \<longleftrightarrow>
     length (mqtt_server s) < 40 \<and> length (mqtt_port s) < 6 \<and> length (mqtt_user s) < 40 \<and>
     length (mqtt_password s) < 40 \<and> length (mqtt_topic s) < 40 \<and>
     length (button_pin s) < 3 \<and> length (led_pin s) < 3 \<and> length (power_pin s) < 3"

section \<open>Library primitives\<close>

subsection \<open>C strings\<close>

definition NUL :: char where
  "NUL = CHR 0x00"

text \<open>The string a NUL-terminated buffer holds: its bytes before the first NUL.\<close>

definition c_str :: "char list \<Rightarrow> string" where
  "c_str buf = takeWhile (\<lambda>c. c \<noteq> NUL) buf"

text \<open>
  \<^verbatim>\<open>strcmp\<close> of the C library, on two buffers; the end of a list is read as the
  terminating NUL. The result is 0 when the two C strings are equal, and has the sign of the
  first differing byte (as unsigned char) otherwise.
\<close>

fun strcmp :: "char list \<Rightarrow> char list \<Rightarrow> int" where
  "strcmp [] [] = 0"
| "strcmp [] (y # ys) = (if y = NUL then 0 else - 1)"
| "strcmp (x # xs) [] = (if x = NUL then 0 else 1)"
| "strcmp (x # xs) (y # ys) =
     (if x \<noteq> y then (if (of_char x :: nat) < of_char y then - 1 else 1)
      else if x = NUL then 0
      else strcmp xs ys)"

text \<open>
  \<^verbatim>\<open>strcpy(dst, src)\<close> into a buffer of \<open>cap\<close> bytes. Writing past the buffer is undefined
  behaviour in C: the model has no result there.
\<close>

definition strcpy :: "nat \<Rightarrow> string \<Rightarrow> string option" where
  "strcpy cap src = (if length src < cap then Some src else None)"

text \<open>\<^verbatim>\<open>snprintf(buf, size, ...)\<close> keeps at most \<open>size - 1\<close> characters of the formatted text.\<close>

definition snprintf :: "nat \<Rightarrow> string \<Rightarrow> string" where
  "snprintf n text = take (n - 1) text"

text \<open>
  \<^verbatim>\<open>atoi\<close> of the C library: leading white space, an optional sign, then decimal digits up
  to the first other character. The pin buffers hold at most two characters and the port
  buffer five, so the value always fits a C \<^verbatim>\<open>int\<close>.
\<close>

definition isspace :: "char \<Rightarrow> bool" where
  "isspace c \<longleftrightarrow> c \<in> set [CHR '' '', CHR 0x09, CHR 0x0A, CHR 0x0B, CHR 0x0C, CHR 0x0D]"

definition isdigit :: "char \<Rightarrow> bool" where
  "isdigit c \<longleftrightarrow> (48::nat) \<le> of_char c \<and> (of_char c :: nat) \<le> 57"

fun atoi_digits :: "int \<Rightarrow> string \<Rightarrow> int" where
  "atoi_digits acc [] = acc"
| "atoi_digits acc (c # cs) =
     (if isdigit c then atoi_digits (acc * 10 + (of_char c - 48)) cs else acc)"

definition atoi :: "string \<Rightarrow> int" where
  "atoi str =
     (case dropWhile isspace str of
        [] \<Rightarrow> 0
      | c # cs \<Rightarrow>
          if c = CHR ''-'' then - atoi_digits 0 cs
          else if c = CHR ''+'' then atoi_digits 0 cs
          else atoi_digits 0 (c # cs))"

subsection \<open>GPIO and time\<close>

definition pinMode :: "int \<Rightarrow> pin_mode \<Rightarrow> device \<Rightarrow> device" where
  "pinMode p m s = s\<lparr>pin_modes := (pin_modes s)(p \<mapsto> m), trace := trace s @ [Mode p m]\<rparr>"

definition digitalWrite :: "int \<Rightarrow> bool \<Rightarrow> device \<Rightarrow> device" where
  "digitalWrite p v s = s\<lparr>pins := (pins s)(p := v), trace := trace s @ [Write p v]\<rparr>"

definition digitalRead :: "int \<Rightarrow> device \<Rightarrow> bool" where
  "digitalRead p s = pins s p"

text \<open>\<^verbatim>\<open>millis()\<close> is an \<^verbatim>\<open>unsigned long\<close>, 32 bits on this target: it wraps.\<close>

definition millis :: "device \<Rightarrow> 32 word" where
  "millis s = clock s"

definition delay :: "nat \<Rightarrow> device \<Rightarrow> device" where
  "delay ms s = s\<lparr>clock := clock s + of_nat ms, trace := trace s @ [Delay ms]\<rparr>"

subsection \<open>The persistence store\<close>

text \<open>
  Modelled from the spec: the \<^verbatim>\<open>Preferences\<close> key-value library is not part of the
  repository. Section 6 of the specification gives its interface: two namespaces, each with
  open (read-only or read-write), get-string with a default, put-string, clear-all and
  close; reading a namespace that holds nothing returns the defaults. The object holds one
  handle: \<open>prefs\<close> is the namespace it has open and whether it is read-only. A write needs
  an open read-write handle. The specification does not say what opening does while a
  handle is open; the sketch closes every handle it opens, and the model leaves the open
  handle as it is.
\<close>

definition prefs_begin :: "string \<Rightarrow> bool \<Rightarrow> device \<Rightarrow> device" where
  "prefs_begin name readOnly s =
     (case prefs s of Some h \<Rightarrow> s | None \<Rightarrow> s\<lparr>prefs := Some (name, readOnly)\<rparr>)"

definition prefs_end :: "device \<Rightarrow> device" where
  "prefs_end s = s\<lparr>prefs := None\<rparr>"

definition prefs_getString :: "string \<Rightarrow> string \<Rightarrow> device \<Rightarrow> string" where
  "prefs_getString key dflt s =
     (case prefs s of
        None \<Rightarrow> dflt
      | Some (name, readOnly) \<Rightarrow> (case nvs s name key of None \<Rightarrow> dflt | Some v \<Rightarrow> v))"

definition prefs_putString :: "string \<Rightarrow> string \<Rightarrow> device \<Rightarrow> device" where
  "prefs_putString key val s =
     (case prefs s of
        None \<Rightarrow> s
      | Some (name, readOnly) \<Rightarrow>
          if readOnly then s else s\<lparr>nvs := (nvs s)(name := (nvs s name)(key \<mapsto> val))\<rparr>)"

definition prefs_clear :: "device \<Rightarrow> device" where
  "prefs_clear s =
     (case prefs s of
        None \<Rightarrow> s
      | Some (name, readOnly) \<Rightarrow>
          if readOnly then s else s\<lparr>nvs := (nvs s)(name := Map.empty)\<rparr>)"

subsection \<open>The provisioning adapter and the messaging client\<close>

text \<open>
  Modelled from the spec: the \<^verbatim>\<open>WiFiManager\<close> library is not part of the repository.
  Section 4.4 of the specification: \<^verbatim>\<open>resetSettings()\<close> forgets any stored network
  association.
\<close>

definition wifi_resetSettings :: "device \<Rightarrow> device" where
  "wifi_resetSettings s = s\<lparr>wifi_saved := False, trace := trace s @ [ForgetWiFi]\<rparr>"

text \<open>
  Modelled from the spec: the \<^verbatim>\<open>PubSubClient\<close> library is not part of the repository.
  Sections 3 and 6 of the specification: the connection state becomes connected only by a
  successful handshake, made with a client identifier, a user name and a password; the
  client publishes a payload to a topic and subscribes to a topic. Whether a handshake
  succeeds is decided by the network, so it is an argument of \<open>client_connect\<close>.
\<close>

definition client_connect :: "bool \<Rightarrow> string \<Rightarrow> string \<Rightarrow> string \<Rightarrow> device \<Rightarrow> device" where
  "client_connect ok ident user pass s =
     s\<lparr>client_connected := ok, trace := trace s @ [Handshake ident user pass]\<rparr>"

definition client_subscribe :: "string \<Rightarrow> device \<Rightarrow> device" where
  "client_subscribe topic s = s\<lparr>trace := trace s @ [Subscribe topic]\<rparr>"

definition client_publish :: "string \<Rightarrow> string \<Rightarrow> device \<Rightarrow> device" where
  "client_publish topic payload s = s\<lparr>trace := trace s @ [Publish topic payload]\<rparr>"

section \<open>The sketch\<close>

subsection \<open>Indicator patterns\<close>

text \<open>
  The loop of lines 110--115 and 167--172: \<open>n\<close> times, the pin high for 100 ms and low for
  100 ms.
\<close>

fun blink :: "nat \<Rightarrow> int \<Rightarrow> device \<Rightarrow> device" where
  "blink 0 p s = s"
| "blink (Suc n) p s =
     blink n p (delay 100 (digitalWrite p LOW (delay 100 (digitalWrite p HIGH s))))"

text \<open>The loop of lines 483--486: \<open>n\<close> times, the pin inverted, then 100 ms.\<close>

fun toggle :: "nat \<Rightarrow> int \<Rightarrow> device \<Rightarrow> device" where
  "toggle 0 p s = s"
| "toggle (Suc n) p s = toggle n p (delay 100 (digitalWrite p (\<not> digitalRead p s) s))"

subsection \<open>\<^verbatim>\<open>setupPowerPin\<close> (lines 78--91)\<close>

definition setupPowerPin :: "device \<Rightarrow> device option" where
  "setupPowerPin s0 =
     (let s1 = prefs_begin ''iot_config'' True s0;
          savedPowerPin = prefs_getString ''power_pin'' '''' s1
      in do {
        s2 \<leftarrow> (if savedPowerPin \<noteq> ''''
               then do { v \<leftarrow> strcpy 3 savedPowerPin; Some (s1\<lparr>power_pin := v\<rparr>) }
               else Some s1);
        let s3 = prefs_end s2;
        let s4 = pinMode (atoi (power_pin s3)) OUTPUT s3;
        Some (digitalWrite (atoi (power_pin s4)) HIGH s4)
      })"

subsection \<open>\<^verbatim>\<open>clearAllData\<close> (lines 106--134)\<close>

definition clearAllData :: "device \<Rightarrow> outcome" where
  "clearAllData s0 =
     (let s1 = blink 5 (atoi (led_pin s0)) s0;
          s2 = prefs_begin ''iot_config'' False s1;
          s3 = prefs_clear s2;
          s4 = prefs_end s3;
          s5 = prefs_begin ''system_flags'' False s4;
          s6 = prefs_clear s5;
          s7 = prefs_end s6;
          s8 = wifi_resetSettings s7;
          s9 = delay 1000 s8
      in Restarts s9)"

subsection \<open>\<^verbatim>\<open>checkFirmwareVersion\<close> (lines 140--181)\<close>

definition checkFirmwareVersion :: "device \<Rightarrow> device" where
  "checkFirmwareVersion s0 =
     (let s1 = prefs_begin ''system_flags'' False s0;
          savedVersion = prefs_getString VERSION_KEY '''' s1
      in if savedVersion \<noteq> FIRMWARE_VERSION then
           (let s2 = prefs_end s1;
                s3 = prefs_begin ''iot_config'' False s2;
                s4 = prefs_clear s3;
                s5 = prefs_end s4;
                s6 = wifi_resetSettings s5;
                s7 = prefs_begin ''system_flags'' False s6;
                s8 = prefs_putString VERSION_KEY FIRMWARE_VERSION s7;
                s9 = pinMode DEFAULT_LED_PIN OUTPUT s8;
                s10 = blink 10 DEFAULT_LED_PIN s9
            in prefs_end s10)
         else prefs_end s1)"

subsection \<open>\<^verbatim>\<open>publishData\<close> (lines 225--244)\<close>

text \<open>The format string \<^verbatim>\<open>{"status":"%s"}\<close> of line 229, applied to its argument.\<close>

definition status_json :: "string \<Rightarrow> string" where
  "status_json status =
     [CHR ''{'', CHR 0x22] @ ''status'' @ [CHR 0x22, CHR '':'', CHR 0x22] @ status
       @ [CHR 0x22, CHR ''}'']"

definition publishData :: "string \<Rightarrow> device \<Rightarrow> device" where
  "publishData status s0 =
     (if client_connected s0 then
        (let message = snprintf 50 (status_json status);
             s1 = client_publish (mqtt_topic s0) message s0
         in if \<not> firstMessageSent s1 \<and> strcmp status ''system_startup'' = 0
               \<and> digitalRead (atoi (button_pin s1)) s1 = HIGH
            then
              (let s2 = s1\<lparr>firstMessageSent := True\<rparr>;
                   s3 = delay 500 s2;
                   s4 = digitalWrite (atoi (power_pin s3)) LOW s3
               in delay 100 s4)
            else s1)
      else s0)"

subsection \<open>\<^verbatim>\<open>callback\<close> (lines 191--218)\<close>

text \<open>
  The payload arrives as \<open>length\<close> raw bytes, which may include NUL; lines 197--201 copy
  them into \<open>message\<close> and append a NUL. \<^verbatim>\<open>clearAllData()\<close> restarts the device, so the
  \<^verbatim>\<open>return\<close> after it is not reached.
\<close>

definition callback :: "string \<Rightarrow> char list \<Rightarrow> device \<Rightarrow> outcome" where
  "callback topic payload s =
     (let message = payload @ [NUL]
      in if strcmp message ''clear_all_data'' = 0 then clearAllData s
         else if strcmp message ''on'' = 0 then
           Returns (publishData ''on'' (digitalWrite (atoi (power_pin s)) HIGH s))
         else if strcmp message ''off'' = 0 then
           Returns (publishData ''off'' (digitalWrite (atoi (power_pin s)) LOW s))
         else Returns s)"

subsection \<open>\<^verbatim>\<open>setup\<close>: loading the configuration (lines 261--284)\<close>

definition setup_load :: "device \<Rightarrow> device option" where
  "setup_load s0 =
     (let s1 = prefs_begin ''iot_config'' True s0;
          savedServer = prefs_getString ''server'' '''' s1
      in do {
        s2 \<leftarrow> (if savedServer \<noteq> '''' then do {
                 a \<leftarrow> strcpy 40 savedServer;
                 b \<leftarrow> strcpy 6 (prefs_getString ''port'' ''1883'' s1);
                 c \<leftarrow> strcpy 40 (prefs_getString ''user'' '''' s1);
                 d \<leftarrow> strcpy 40 (prefs_getString ''password'' '''' s1);
                 e \<leftarrow> strcpy 40 (prefs_getString ''topic'' ''esp32c2'' s1);
                 Some (s1\<lparr>mqtt_server := a, mqtt_port := b, mqtt_user := c,
                          mqtt_password := d, mqtt_topic := e\<rparr>)
               } else Some s1);
        let savedLedPin = prefs_getString ''led_pin'' '''' s2;
        s3 \<leftarrow> (if savedLedPin \<noteq> ''''
               then do { v \<leftarrow> strcpy 3 savedLedPin; Some (s2\<lparr>led_pin := v\<rparr>) }
               else Some s2);
        let savedbuttonPin = prefs_getString ''button_pin'' '''' s3;
        s4 \<leftarrow> (if savedbuttonPin \<noteq> ''''
               then do { v \<leftarrow> strcpy 3 savedbuttonPin; Some (s3\<lparr>button_pin := v\<rparr>) }
               else Some s3);
        Some (prefs_end s4)
      })"

subsection \<open>\<^verbatim>\<open>setup\<close>: saving the configuration (lines 347--367)\<close>

definition save_config :: "device \<Rightarrow> device" where
  "save_config s0 =
     (let s1 = prefs_begin ''iot_config'' False s0;
          s2 = prefs_putString ''server'' (mqtt_server s1) s1;
          s3 = prefs_putString ''port'' (mqtt_port s2) s2;
          s4 = prefs_putString ''user'' (mqtt_user s3) s3;
          s5 = prefs_putString ''password'' (mqtt_password s4) s4;
          s6 = prefs_putString ''topic'' (mqtt_topic s5) s5;
          s7 = prefs_putString ''button_pin'' (button_pin s6) s6;
          s8 = prefs_putString ''led_pin'' (led_pin s7) s7;
          s9 = prefs_putString ''power_pin'' (power_pin s8) s8
      in prefs_end s9)"

definition setup_save :: "device \<Rightarrow> device" where
  "setup_save s0 =
     (if shouldSaveConfig s0 then
        (let s1 = save_config s0;
             s2 = pinMode (atoi (button_pin s1)) INPUT_PULLUP s1;
             s3 = pinMode (atoi (led_pin s2)) OUTPUT s2;
             s4 = pinMode (atoi (power_pin s3)) OUTPUT s3;
             s5 = digitalWrite (atoi (led_pin s4)) LOW s4
         in digitalWrite (atoi (power_pin s5)) HIGH s5)
      else s0)"

text \<open>
  The boot-time load: the power pin is read from the store by \<^verbatim>\<open>setupPowerPin\<close>, the
  other fields by the load of lines 261--284.
\<close>

definition boot_load :: "device \<Rightarrow> device option" where
  "boot_load s = do { s1 \<leftarrow> setupPowerPin s; setup_load s1 }"

subsection \<open>\<^verbatim>\<open>connectMQTT\<close> and \<^verbatim>\<open>reconnectMQTT\<close> (lines 408--446)\<close>

text \<open>
  \<open>net i\<close> says whether the handshake of attempt \<open>i\<close> of this call succeeds. The
  \<^verbatim>\<open>while\<close> loop of lines 410--433 is the recursion on \<open>retry\<close>.
\<close>

function connectMQTT_from :: "(nat \<Rightarrow> bool) \<Rightarrow> nat \<Rightarrow> device \<Rightarrow> bool \<times> device" where
  "connectMQTT_from net retry s =
     (if \<not> client_connected s \<and> retry < 3 then
        (let ok = net retry;
             s1 = client_connect ok ''ESP32C2_Client'' (mqtt_user s) (mqtt_password s) s
         in if ok then
              (let controlTopic = snprintf 50 (mqtt_topic s1 @ ''/control'');
                   s2 = client_subscribe controlTopic s1
               in (True, s2))
            else connectMQTT_from net (retry + 1) (delay 2000 s1))
      else (False, s))"
  by pat_completeness auto
termination
  by (relation "measure (\<lambda>(net, retry, s). 3 - retry)") auto

definition connectMQTT :: "(nat \<Rightarrow> bool) \<Rightarrow> device \<Rightarrow> bool \<times> device" where
  "connectMQTT net s = connectMQTT_from net 0 s"

definition reconnectMQTT :: "(nat \<Rightarrow> bool) \<Rightarrow> device \<Rightarrow> device" where
  "reconnectMQTT net s =
     (case connectMQTT net s of
        (True, s1) \<Rightarrow> publishData ''reconnected'' s1
      | (False, s1) \<Rightarrow> s1)"

subsection \<open>\<^verbatim>\<open>resetConfig\<close> (lines 479--495) and \<^verbatim>\<open>checkResetButton\<close> (lines 452--473)\<close>

definition resetConfig :: "device \<Rightarrow> outcome" where
  "resetConfig s0 =
     (let s1 = toggle 10 (atoi (led_pin s0)) s0;
          s2 = wifi_resetSettings s1
      in Restarts s2)"

definition checkResetButton :: "device \<Rightarrow> outcome" where
  "checkResetButton s =
     (if digitalRead (atoi (button_pin s)) s = LOW then
        (if buttonPressTime s = 0 then Returns (s\<lparr>buttonPressTime := millis s\<rparr>)
         else if \<not> longPressActive s \<and> millis s - buttonPressTime s > RESET_HOLD_TIME then
           resetConfig (s\<lparr>longPressActive := True\<rparr>)
         else Returns s)
      else Returns (s\<lparr>buttonPressTime := 0, longPressActive := False\<rparr>))"

subsection \<open>\<^verbatim>\<open>loop\<close> (lines 390--401)\<close>

text \<open>
  Modelled from the spec: the message pump \<^verbatim>\<open>client.loop()\<close> belongs to the
  \<^verbatim>\<open>PubSubClient\<close> library, which is not part of the repository. Section 6 of the
  specification: it delivers an inbound message to the registered handler with its topic
  and raw bytes. \<open>inbound\<close> is the message that arrives during this iteration, if any.
\<close>

definition client_loop :: "(string \<times> char list) option \<Rightarrow> device \<Rightarrow> outcome" where
  "client_loop inbound s =
     (case inbound of
        None \<Rightarrow> Returns s
      | Some (topic, payload) \<Rightarrow>
          if client_connected s then callback topic payload s else Returns s)"

definition loop :: "(nat \<Rightarrow> bool) \<Rightarrow> (string \<times> char list) option \<Rightarrow> device \<Rightarrow> outcome" where
  "loop net inbound s0 =
     (case checkResetButton s0 of
        Restarts r \<Rightarrow> Restarts r
      | Returns s1 \<Rightarrow>
          (let s2 = (if \<not> client_connected s1 then reconnectMQTT net s1 else s1)
           in case client_loop inbound s2 of
                Restarts r \<Rightarrow> Restarts r
              | Returns s3 \<Rightarrow> Returns (delay 100 s3)))"

section \<open>The environment\<close>

text \<open>
  Between two readings the outside world moves on: time passes and the button changes.
  \<open>sense t level\<close> is the device as \<^verbatim>\<open>checkResetButton\<close> finds it when the clock reads
  \<open>t\<close> and the button input is at \<open>level\<close>.
\<close>

definition sense :: "32 word \<Rightarrow> bool \<Rightarrow> device \<Rightarrow> device" where
  "sense t level s = s\<lparr>clock := t, pins := (pins s)(atoi (button_pin s) := level)\<rparr>"

text \<open>
  The button monitor over a sequence of samples, one per iteration of \<^verbatim>\<open>loop\<close>; a restart
  ends the sequence.
\<close>

fun poll :: "(32 word \<times> bool) list \<Rightarrow> device \<Rightarrow> outcome" where
  "poll [] s = Returns s"
| "poll ((t, level) # rest) s =
     (case checkResetButton (sense t level s) of
        Restarts r \<Rightarrow> Restarts r
      | Returns s' \<Rightarrow> poll rest s')"

text \<open>
  What one iteration of \<^verbatim>\<open>loop\<close> meets: the time, the button level, whether the
  connection is still up, the handshake results and the inbound message.
\<close>

record stimulus =
  at_time :: "32 word"
  button_level :: bool
  link_up :: bool
  handshakes :: "nat \<Rightarrow> bool"
  inbound_msg :: "(string \<times> char list) option"

definition meet :: "stimulus \<Rightarrow> device \<Rightarrow> device" where
  "meet e s = (sense (at_time e) (button_level e) s)
                \<lparr>client_connected := client_connected s \<and> link_up e\<rparr>"

fun run :: "stimulus list \<Rightarrow> device \<Rightarrow> outcome" where
  "run [] s = Returns s"
| "run (e # es) s =
     (case loop (handshakes e) (inbound_msg e) (meet e s) of
        Restarts r \<Rightarrow> Restarts r
      | Returns s' \<Rightarrow> run es s')"

section \<open>Reading results\<close>

fun restarted :: "outcome \<Rightarrow> bool" where
  "restarted (Restarts r) = True"
| "restarted (Returns s) = False"

fun state_of :: "outcome \<Rightarrow> device" where
  "state_of (Restarts r) = r"
| "state_of (Returns s) = s"

text \<open>What \<open>prefs_getString\<close> returns from an open namespace \<open>cfg\<close>.\<close>

definition lookup_or :: "(string \<rightharpoonup> string) \<Rightarrow> string \<Rightarrow> string \<Rightarrow> string" where
  "lookup_or cfg key dflt = (case cfg key of None \<Rightarrow> dflt | Some v \<Rightarrow> v)"

text \<open>
  The stored values that \<^verbatim>\<open>setupPowerPin\<close> and the load copy with \<^verbatim>\<open>strcpy\<close> fit the
  buffers they are copied into. The sketch itself only stores what it read from those
  buffers (lines 350--357).
\<close>

definition value_fits :: "(string \<rightharpoonup> string) \<Rightarrow> string \<Rightarrow> nat \<Rightarrow> bool" where
  "value_fits cfg key cap = (case cfg key of None \<Rightarrow> True | Some v \<Rightarrow> length v < cap)"

definition store_fits :: "(string \<rightharpoonup> string) \<Rightarrow> bool" where
  "store_fits cfg \<longleftrightarrow>
     value_fits cfg ''server'' 40 \<and> value_fits cfg ''port'' 6 \<and> value_fits cfg ''user'' 40 \<and>
     value_fits cfg ''password'' 40 \<and> value_fits cfg ''topic'' 40 \<and>
     value_fits cfg ''button_pin'' 3 \<and> value_fits cfg ''led_pin'' 3 \<and>
     value_fits cfg ''power_pin'' 3"

text \<open>The button monitor's samples while the button is held down, at the given times.\<close>

definition held :: "32 word list \<Rightarrow> (32 word \<times> bool) list" where
  "held ts = map (\<lambda>t. (t, LOW)) ts"

section \<open>Example devices\<close>

text \<open>
  A flash written by firmware 0.9.0, the same flash with the version of this firmware, and
  a flash whose operational configuration holds a topic and nothing else.
\<close>

definition stale_flash :: "string \<Rightarrow> (string \<rightharpoonup> string)" where
  "stale_flash =
     (\<lambda>name. Map.empty)
       (''iot_config'' := [''server'' \<mapsto> ''broker.lan'', ''topic'' \<mapsto> ''switch1'',
                           ''led_pin'' \<mapsto> ''5''],
        ''system_flags'' := [''fw_version'' \<mapsto> ''0.9.0''])"

definition current_flash :: "string \<Rightarrow> (string \<rightharpoonup> string)" where
  "current_flash = stale_flash(''system_flags'' := [''fw_version'' \<mapsto> ''1.0.0''])"

definition topic_only_flash :: "string \<Rightarrow> (string \<rightharpoonup> string)" where
  "topic_only_flash = current_flash(''iot_config'' := [''topic'' \<mapsto> ''switch1''])"

definition all_high :: "int \<Rightarrow> bool" where
  "all_high p = True"

definition stale_device :: device where
  "stale_device = power_up stale_flash True all_high"

definition current_device :: device where
  "current_device = power_up current_flash True all_high"

definition topic_only_device :: device where
  "topic_only_device = power_up topic_only_flash True all_high"

text \<open>A device with a live connection, button released; the same with the button held.\<close>

definition online_device :: device where
  "online_device = current_device\<lparr>client_connected := True\<rparr>"

definition online_held_device :: device where
  "online_held_device = online_device\<lparr>pins := all_high(9 := False)\<rparr>"

text \<open>A connected device whose startup power-off has already fired.\<close>

definition latched_device :: device where
  "latched_device = online_device\<lparr>firstMessageSent := True, pins := all_high(7 := False)\<rparr>"

text \<open>
  What the operator can leave in the buffers at the portal: a configuration with a server,
  and one with a topic but no server.
\<close>

definition provisioned_device :: device where
  "provisioned_device =
     current_device\<lparr>mqtt_server := ''mqtt.example.com'', mqtt_topic := ''switch1'',
                     power_pin := ''4'', shouldSaveConfig := True\<rparr>"

definition serverless_device :: device where
  "serverless_device = current_device\<lparr>mqtt_topic := ''switch1'', shouldSaveConfig := True\<rparr>"

text \<open>A network on which the second handshake of a call succeeds.\<close>

definition second_try :: "nat \<Rightarrow> bool" where
  "second_try i \<longleftrightarrow> i = 1"

text \<open>An iteration of \<^verbatim>\<open>loop\<close> in which nothing happens, and one that brings a command.\<close>

definition quiet :: stimulus where
  "quiet = \<lparr>at_time = 700, button_level = True, link_up = True,
            handshakes = second_try, inbound_msg = None\<rparr>"

definition switch_on :: stimulus where
  "switch_on = quiet\<lparr>at_time := 900, inbound_msg := Some (''esp32/control'', ''on'')\<rparr>"

section \<open>C strings and pin numbers\<close>

lemma strcmp_c_str: "strcmp a b = 0 \<longleftrightarrow> c_str a = c_str b"
  by (induction a b rule: strcmp.induct) (auto simp: c_str_def)

lemma c_str_payload: "c_str (payload @ [NUL]) = c_str payload"
  by (induction payload) (simp_all add: c_str_def)

lemma c_str_literals:
  "c_str ''system_startup'' = ''system_startup''"
  "c_str ''clear_all_data'' = ''clear_all_data''"
  "c_str ''on'' = ''on''" "c_str ''off'' = ''off''" "c_str ''reconnected'' = ''reconnected''"
  by (simp_all add: c_str_def NUL_def)

lemma status_short:
  "snprintf 50 (status_json ''system_startup'') = status_json ''system_startup''"
  "snprintf 50 (status_json ''on'') = status_json ''on''"
  "snprintf 50 (status_json ''off'') = status_json ''off''"
  by (simp_all add: snprintf_def status_json_def)

lemma control_topic_short:
  "length topic < 40 \<Longrightarrow> snprintf 50 (topic @ ''/control'') = topic @ ''/control''"
  by (simp add: snprintf_def)

lemma atoi_default_pins: "atoi ''9'' = 9" "atoi ''8'' = 8" "atoi ''7'' = 7"
  by (simp_all add: atoi_def isspace_def isdigit_def)

section \<open>Frame lemmas for the primitives\<close>

lemma delay_frame [simp]:
  "nvs (delay n s) = nvs s" "prefs (delay n s) = prefs s"
  "wifi_saved (delay n s) = wifi_saved s" "pins (delay n s) = pins s"
  "firstMessageSent (delay n s) = firstMessageSent s"
  "client_connected (delay n s) = client_connected s"
  by (simp_all add: delay_def)

lemma digitalWrite_frame [simp]:
  "nvs (digitalWrite p v s) = nvs s" "prefs (digitalWrite p v s) = prefs s"
  "wifi_saved (digitalWrite p v s) = wifi_saved s"
  "firstMessageSent (digitalWrite p v s) = firstMessageSent s"
  "client_connected (digitalWrite p v s) = client_connected s"
  by (simp_all add: digitalWrite_def)

lemma blink_frame [simp]:
  "nvs (blink n p s) = nvs s" "prefs (blink n p s) = prefs s"
  "wifi_saved (blink n p s) = wifi_saved s"
  "firstMessageSent (blink n p s) = firstMessageSent s"
  "client_connected (blink n p s) = client_connected s"
  by (induction n arbitrary: s; simp)+

lemma toggle_frame [simp]:
  "nvs (toggle n p s) = nvs s" "prefs (toggle n p s) = prefs s"
  "wifi_saved (toggle n p s) = wifi_saved s"
  "firstMessageSent (toggle n p s) = firstMessageSent s"
  "client_connected (toggle n p s) = client_connected s"
  by (induction n arbitrary: s; simp)+

lemma prefs_begin_fields [simp]:
  "mqtt_server (prefs_begin n ro s) = mqtt_server s" "mqtt_port (prefs_begin n ro s) = mqtt_port s"
  "mqtt_user (prefs_begin n ro s) = mqtt_user s"
  "mqtt_password (prefs_begin n ro s) = mqtt_password s"
  "mqtt_topic (prefs_begin n ro s) = mqtt_topic s" "button_pin (prefs_begin n ro s) = button_pin s"
  "led_pin (prefs_begin n ro s) = led_pin s" "power_pin (prefs_begin n ro s) = power_pin s"
  by (simp_all add: prefs_begin_def split: option.splits)

lemma prefs_putString_fields [simp]:
  "mqtt_server (prefs_putString k v s) = mqtt_server s"
  "mqtt_port (prefs_putString k v s) = mqtt_port s"
  "mqtt_user (prefs_putString k v s) = mqtt_user s"
  "mqtt_password (prefs_putString k v s) = mqtt_password s"
  "mqtt_topic (prefs_putString k v s) = mqtt_topic s"
  "button_pin (prefs_putString k v s) = button_pin s"
  "led_pin (prefs_putString k v s) = led_pin s" "power_pin (prefs_putString k v s) = power_pin s"
  "prefs (prefs_putString k v s) = prefs s"
  by (simp_all add: prefs_putString_def split: option.splits prod.splits)

lemma getString_open:
  "prefs s = Some (name, ro) \<Longrightarrow> prefs_getString key dflt s = lookup_or (nvs s name) key dflt"
  by (simp add: prefs_getString_def lookup_or_def)

lemma strcpy_fits: "length v < cap \<Longrightarrow> strcpy cap v = Some v"
  by (simp add: strcpy_def)

lemma lookup_fits:
  "value_fits cfg key cap \<Longrightarrow> length dflt < cap \<Longrightarrow> length (lookup_or cfg key dflt) < cap"
  by (simp add: value_fits_def lookup_or_def split: option.splits)

section \<open>The version migration guard\<close>

lemma checkFirmwareVersion_mismatch:
  assumes "prefs s = None" and "nvs s ''system_flags'' VERSION_KEY \<noteq> Some FIRMWARE_VERSION"
  shows "nvs (checkFirmwareVersion s) =
           (nvs s)(''iot_config'' := Map.empty,
                   ''system_flags'' := (nvs s ''system_flags'')(VERSION_KEY \<mapsto> FIRMWARE_VERSION))"
    and "wifi_saved (checkFirmwareVersion s) = False"
    and "prefs (checkFirmwareVersion s) = None"
  using assms
  by (auto simp: checkFirmwareVersion_def Let_def prefs_begin_def prefs_end_def
      prefs_getString_def prefs_clear_def prefs_putString_def wifi_resetSettings_def
      pinMode_def FIRMWARE_VERSION_def split: option.splits)

lemma checkFirmwareVersion_match:
  assumes "prefs s = None" and "nvs s ''system_flags'' VERSION_KEY = Some FIRMWARE_VERSION"
  shows "checkFirmwareVersion s = s"
  using assms
  by (simp add: checkFirmwareVersion_def Let_def prefs_begin_def prefs_end_def
      prefs_getString_def)

section \<open>Publishing\<close>

text \<open>\<^verbatim>\<open>publishData\<close> with its library calls carried out.\<close>

lemma publishData_unfold:
  "publishData status s =
     (if client_connected s then
        (if \<not> firstMessageSent s \<and> c_str status = ''system_startup''
              \<and> pins s (atoi (button_pin s))
         then s\<lparr>firstMessageSent := True,
                pins := (pins s)(atoi (power_pin s) := False),
                clock := clock s + 600,
                trace := trace s @ [Publish (mqtt_topic s) (snprintf 50 (status_json status)),
                                    Delay 500, Write (atoi (power_pin s)) False, Delay 100]\<rparr>
         else s\<lparr>trace := trace s @ [Publish (mqtt_topic s) (snprintf 50 (status_json status))]\<rparr>)
      else s)"
  unfolding publishData_def Let_def strcmp_c_str c_str_literals client_publish_def delay_def
    digitalWrite_def digitalRead_def HIGH_def LOW_def
  by simp

lemma publishData_latch:
  "firstMessageSent (publishData status s) \<longleftrightarrow>
     firstMessageSent s \<or>
     (client_connected s \<and> c_str status = ''system_startup'' \<and>
      digitalRead (atoi (button_pin s)) s = HIGH)"
  by (auto simp: publishData_unfold digitalRead_def HIGH_def)

lemma publishData_keeps_latch: "firstMessageSent s \<Longrightarrow> firstMessageSent (publishData status s)"
  by (simp add: publishData_latch)

lemma publishData_handle: "prefs (publishData status s) = prefs s"
  by (simp add: publishData_unfold)

lemma publishData_pins:
  "pins (publishData status s) \<noteq> pins s \<Longrightarrow>
     \<not> firstMessageSent s \<and> firstMessageSent (publishData status s)"
  by (auto simp: publishData_unfold split: if_splits)

lemma publish_after_write:
  assumes "status = ''on'' \<or> status = ''off''"
  shows "publishData status (digitalWrite p v s) =
     (if client_connected s
      then s\<lparr>pins := (pins s)(p := v),
             trace := trace s @ [Write p v, Publish (mqtt_topic s) (status_json status)]\<rparr>
      else s\<lparr>pins := (pins s)(p := v), trace := trace s @ [Write p v]\<rparr>)"
  using assms
  by (auto simp: publishData_unfold c_str_literals status_short digitalWrite_def)

section \<open>The command handler, the wipe and the reset\<close>

lemma callback_c_str:
  "callback topic payload s =
     (if c_str payload = ''clear_all_data'' then clearAllData s
      else if c_str payload = ''on'' then
        Returns (publishData ''on'' (digitalWrite (atoi (power_pin s)) HIGH s))
      else if c_str payload = ''off'' then
        Returns (publishData ''off'' (digitalWrite (atoi (power_pin s)) LOW s))
      else Returns s)"
  unfolding callback_def Let_def strcmp_c_str c_str_payload c_str_literals ..

lemma clearAllData_wipes:
  assumes "prefs s = None"
  shows "restarted (clearAllData s)"
    and "nvs (state_of (clearAllData s)) ''iot_config'' = Map.empty"
    and "nvs (state_of (clearAllData s)) ''system_flags'' = Map.empty"
    and "\<not> wifi_saved (state_of (clearAllData s))"
  using assms
  by (simp_all add: clearAllData_def Let_def prefs_begin_def prefs_clear_def prefs_end_def
      wifi_resetSettings_def)

lemma resetConfig_forgets:
  "restarted (resetConfig s)" "nvs (state_of (resetConfig s)) = nvs s"
  "\<not> wifi_saved (state_of (resetConfig s))"
  by (simp_all add: resetConfig_def Let_def wifi_resetSettings_def)

section \<open>Connecting\<close>

declare connectMQTT_from.simps [simp del]

lemma connectMQTT_from_step:
  assumes "\<not> client_connected s" and "retry < 3"
  shows "connectMQTT_from net retry s =
     (if net retry
      then (True, s\<lparr>client_connected := True,
                    trace := trace s @ [Handshake ''ESP32C2_Client'' (mqtt_user s) (mqtt_password s),
                                        Subscribe (snprintf 50 (mqtt_topic s @ ''/control''))]\<rparr>)
      else connectMQTT_from net (retry + 1)
             (s\<lparr>clock := clock s + 2000,
                trace := trace s @ [Handshake ''ESP32C2_Client'' (mqtt_user s) (mqtt_password s),
                                    Delay 2000]\<rparr>))"
proof -
  have same: "s\<lparr>client_connected := False\<rparr> = s"
    using assms(1) by simp
  show ?thesis
    using assms
    by (subst connectMQTT_from.simps)
       (simp add: Let_def client_connect_def client_subscribe_def delay_def same)
qed

lemma connectMQTT_from_exhausted:
  "\<not> retry < 3 \<Longrightarrow> connectMQTT_from net retry s = (False, s)"
  by (subst connectMQTT_from.simps) simp

lemma connectMQTT_connected: "client_connected s \<Longrightarrow> connectMQTT net s = (False, s)"
  unfolding connectMQTT_def by (subst connectMQTT_from.simps) simp

lemma connectMQTT_cases:
  assumes "\<not> client_connected s"
  shows "connectMQTT net s =
     (let attempt = Handshake ''ESP32C2_Client'' (mqtt_user s) (mqtt_password s);
          subscribed = Subscribe (snprintf 50 (mqtt_topic s @ ''/control''))
      in if net 0 then
           (True, s\<lparr>client_connected := True, trace := trace s @ [attempt, subscribed]\<rparr>)
         else if net 1 then
           (True, s\<lparr>client_connected := True, clock := clock s + 2000,
                    trace := trace s @ [attempt, Delay 2000, attempt, subscribed]\<rparr>)
         else if net 2 then
           (True, s\<lparr>client_connected := True, clock := clock s + 4000,
                    trace := trace s @ [attempt, Delay 2000, attempt, Delay 2000,
                                        attempt, subscribed]\<rparr>)
         else
           (False, s\<lparr>clock := clock s + 6000,
                     trace := trace s @ [attempt, Delay 2000, attempt, Delay 2000,
                                         attempt, Delay 2000]\<rparr>))"
  using assms
  by (simp add: connectMQTT_def connectMQTT_from_step connectMQTT_from_exhausted
      Let_def numeral_2_eq_2)

lemma connectMQTT_keeps:
  "firstMessageSent (snd (connectMQTT net s)) = firstMessageSent s"
  "prefs (snd (connectMQTT net s)) = prefs s"
  by (cases "client_connected s";
      simp add: connectMQTT_connected connectMQTT_cases Let_def)+

section \<open>What the steady state never undoes\<close>

text \<open>
  Two facts hold from the end of \<^verbatim>\<open>setup\<close> on, whatever the iterations of \<^verbatim>\<open>loop\<close>
  meet: the first-message latch, once set, stays set, and the \<^verbatim>\<open>Preferences\<close> handle,
  closed when \<^verbatim>\<open>loop\<close> starts, is closed whenever a function is entered.
\<close>

lemma reconnectMQTT_keeps:
  "firstMessageSent s \<Longrightarrow> firstMessageSent (reconnectMQTT net s)"
  "prefs (reconnectMQTT net s) = prefs s"
proof -
  obtain ok s1 where c: "connectMQTT net s = (ok, s1)"
    by (cases "connectMQTT net s")
  then have s1: "firstMessageSent s1 = firstMessageSent s" "prefs s1 = prefs s"
    using connectMQTT_keeps [of net s] by simp_all
  show "firstMessageSent s \<Longrightarrow> firstMessageSent (reconnectMQTT net s)"
    using c s1 by (cases ok) (simp_all add: reconnectMQTT_def publishData_keeps_latch)
  show "prefs (reconnectMQTT net s) = prefs s"
    using c s1 by (cases ok) (simp_all add: reconnectMQTT_def publishData_handle)
qed

lemma checkResetButton_keeps:
  assumes "checkResetButton s = Returns s'"
  shows "firstMessageSent s' = firstMessageSent s" and "prefs s' = prefs s"
  using assms
  by (auto simp: checkResetButton_def resetConfig_def Let_def split: if_splits)

lemma callback_keeps:
  assumes "callback topic payload s = Returns s'"
  shows "firstMessageSent s \<Longrightarrow> firstMessageSent s'" and "prefs s' = prefs s"
  using assms
  by (auto simp: callback_c_str clearAllData_def Let_def publishData_keeps_latch
      publishData_handle split: if_splits)

lemma client_loop_keeps:
  assumes "client_loop inbound s = Returns s'"
  shows "firstMessageSent s \<Longrightarrow> firstMessageSent s'" and "prefs s' = prefs s"
  using assms
  by (auto simp: client_loop_def split: option.splits if_splits dest: callback_keeps)

lemma loop_keeps:
  assumes "loop net inbound s = Returns s'"
  shows "firstMessageSent s \<Longrightarrow> firstMessageSent s'" and "prefs s' = prefs s"
proof -
  from assms obtain s1 where s1: "checkResetButton s = Returns s1"
    by (auto simp: loop_def split: outcome.splits)
  define s2 where "s2 = (if \<not> client_connected s1 then reconnectMQTT net s1 else s1)"
  from assms s1 obtain s3 where s3: "client_loop inbound s2 = Returns s3"
    and s': "s' = delay 100 s3"
    by (auto simp: loop_def Let_def s2_def split: outcome.splits)
  have step2: "firstMessageSent s1 \<Longrightarrow> firstMessageSent s2" "prefs s2 = prefs s1"
    by (simp_all add: s2_def reconnectMQTT_keeps)
  show "firstMessageSent s \<Longrightarrow> firstMessageSent s'"
    using checkResetButton_keeps(1) [OF s1] step2(1) client_loop_keeps(1) [OF s3]
    by (simp add: s')
  show "prefs s' = prefs s"
    using checkResetButton_keeps(2) [OF s1] step2(2) client_loop_keeps(2) [OF s3]
    by (simp add: s')
qed

lemma meet_keeps [simp]:
  "firstMessageSent (meet e s) = firstMessageSent s" "prefs (meet e s) = prefs s"
  by (simp_all add: meet_def sense_def)

lemma run_keeps_latch:
  assumes "firstMessageSent s" and "run events s = Returns s'"
  shows "firstMessageSent s'"
  using assms
proof (induction events arbitrary: s)
  case Nil
  then show ?case by simp
next
  case (Cons e es)
  from Cons.prems(2) obtain s1 where
    s1: "loop (handshakes e) (inbound_msg e) (meet e s) = Returns s1"
    and rest: "run es s1 = Returns s'"
    by (auto split: outcome.splits)
  have "firstMessageSent s1"
    using loop_keeps(1) [OF s1] Cons.prems(1) by simp
  then show ?case
    using rest by (rule Cons.IH)
qed

lemma run_keeps_handle:
  assumes "run events s = Returns s'"
  shows "prefs s' = prefs s"
  using assms
proof (induction events arbitrary: s)
  case Nil
  then show ?case by simp
next
  case (Cons e es)
  from Cons.prems obtain s1 where
    s1: "loop (handshakes e) (inbound_msg e) (meet e s) = Returns s1"
    and rest: "run es s1 = Returns s'"
    by (auto split: outcome.splits)
  show ?case
    using loop_keeps(2) [OF s1] Cons.IH [OF rest] by simp
qed

section \<open>Loading and saving the configuration\<close>

text \<open>
  The load with its library calls carried out, for a store whose values fit the buffers.
\<close>

lemma setup_load_unfold:
  assumes "prefs s = None" and "store_fits (nvs s ''iot_config'')"
  shows "setup_load s = Some
     (let cfg = nvs s ''iot_config'';
          s2 = (if lookup_or cfg ''server'' [] \<noteq> []
                then s\<lparr>mqtt_server := lookup_or cfg ''server'' [],
                       mqtt_port := lookup_or cfg ''port'' ''1883'',
                       mqtt_user := lookup_or cfg ''user'' [],
                       mqtt_password := lookup_or cfg ''password'' [],
                       mqtt_topic := lookup_or cfg ''topic'' ''esp32c2''\<rparr>
                else s);
          s3 = (if lookup_or cfg ''led_pin'' [] \<noteq> []
                then s2\<lparr>led_pin := lookup_or cfg ''led_pin'' []\<rparr> else s2)
      in if lookup_or cfg ''button_pin'' [] \<noteq> []
         then s3\<lparr>button_pin := lookup_or cfg ''button_pin'' []\<rparr> else s3)"
proof -
  let ?cfg = "nvs s ''iot_config''"
  have f: "length (lookup_or ?cfg ''server'' []) < 40"
    "length (lookup_or ?cfg ''port'' ''1883'') < 6"
    "length (lookup_or ?cfg ''user'' []) < 40"
    "length (lookup_or ?cfg ''password'' []) < 40"
    "length (lookup_or ?cfg ''topic'' ''esp32c2'') < 40"
    "length (lookup_or ?cfg ''led_pin'' []) < 3"
    "length (lookup_or ?cfg ''button_pin'' []) < 3"
    using assms(2) by (simp_all add: store_fits_def lookup_fits)
  have closed: "s\<lparr>prefs := None\<rparr> = s"
    using assms(1) by simp
  show ?thesis
    using assms(1)
    by (simp add: setup_load_def Let_def prefs_begin_def prefs_end_def getString_open
        strcpy_fits f closed)
qed

lemma setupPowerPin_unfold:
  assumes "prefs s = None" and "value_fits (nvs s ''iot_config'') ''power_pin'' 3"
  shows "setupPowerPin s = Some
     (let saved = lookup_or (nvs s ''iot_config'') ''power_pin'' [];
          s1 = (if saved \<noteq> [] then s\<lparr>power_pin := saved\<rparr> else s)
      in digitalWrite (atoi (power_pin s1)) HIGH (pinMode (atoi (power_pin s1)) OUTPUT s1))"
proof -
  have f: "length (lookup_or (nvs s ''iot_config'') ''power_pin'' []) < 3"
    using assms(2) by (simp add: lookup_fits)
  have closed: "s\<lparr>prefs := None\<rparr> = s"
    using assms(1) by simp
  show ?thesis
    using assms(1)
    by (simp add: setupPowerPin_def Let_def prefs_begin_def prefs_end_def getString_open
        strcpy_fits f closed pinMode_def digitalWrite_def)
qed

lemma setupPowerPin_closes:
  assumes "prefs s = None" and "setupPowerPin s = Some s'"
  shows "prefs s' = None"
  using assms
  by (auto simp: setupPowerPin_def Let_def prefs_begin_def prefs_end_def pinMode_def
      digitalWrite_def strcpy_def split: if_splits)

lemma save_config_unfold:
  assumes "prefs s = None"
  shows "save_config s =
     s\<lparr>nvs := (nvs s)(''iot_config'' := (nvs s ''iot_config'')
            (''server'' \<mapsto> mqtt_server s, ''port'' \<mapsto> mqtt_port s, ''user'' \<mapsto> mqtt_user s,
             ''password'' \<mapsto> mqtt_password s, ''topic'' \<mapsto> mqtt_topic s,
             ''button_pin'' \<mapsto> button_pin s, ''led_pin'' \<mapsto> led_pin s,
             ''power_pin'' \<mapsto> power_pin s))\<rparr>"
proof -
  show ?thesis
    unfolding save_config_def Let_def
    apply (simp only: prefs_putString_fields prefs_begin_fields)
    using assms apply (simp add: prefs_begin_def prefs_putString_def prefs_end_def)
    done
qed

text \<open>The save of \<^verbatim>\<open>setup\<close> writes the store only through \<open>save_config\<close>.\<close>

lemma setup_save_store:
  "nvs (setup_save s) = (if shouldSaveConfig s then nvs (save_config s) else nvs s)"
  by (simp add: setup_save_def Let_def pinMode_def)

lemma saved_lookups:
  assumes "prefs s = None"
  defines "cfg \<equiv> nvs (save_config s) ''iot_config''"
  shows "cfg ''server'' = Some (mqtt_server s)" "cfg ''port'' = Some (mqtt_port s)"
    "cfg ''user'' = Some (mqtt_user s)" "cfg ''password'' = Some (mqtt_password s)"
    "cfg ''topic'' = Some (mqtt_topic s)" "cfg ''button_pin'' = Some (button_pin s)"
    "cfg ''led_pin'' = Some (led_pin s)" "cfg ''power_pin'' = Some (power_pin s)"
  by (simp_all add: cfg_def save_config_unfold [OF assms(1)])

section \<open>The button monitor\<close>

lemma sense_button [simp]:
  "digitalRead (atoi (button_pin (sense t level s))) (sense t level s) = level"
  "millis (sense t level s) = t"
  "buttonPressTime (sense t level s) = buttonPressTime s"
  "longPressActive (sense t level s) = longPressActive s"
  by (simp_all add: sense_def digitalRead_def millis_def)

lemma press_starts:
  assumes "buttonPressTime s = 0"
  shows "checkResetButton (sense t LOW s) = Returns ((sense t LOW s)\<lparr>buttonPressTime := t\<rparr>)"
  using assms by (simp add: checkResetButton_def)

lemma press_continues:
  assumes "buttonPressTime s \<noteq> 0"
    and "longPressActive s \<or> t - buttonPressTime s \<le> RESET_HOLD_TIME"
  shows "checkResetButton (sense t LOW s) = Returns (sense t LOW s)"
  using assms by (auto simp: checkResetButton_def)

lemma press_fires:
  assumes "buttonPressTime s \<noteq> 0" and "\<not> longPressActive s"
    and "t - buttonPressTime s > RESET_HOLD_TIME"
  shows "checkResetButton (sense t LOW s) =
           resetConfig ((sense t LOW s)\<lparr>longPressActive := True\<rparr>)"
  using assms by (simp add: checkResetButton_def)

lemma release_clears:
  "checkResetButton (sense t HIGH s) =
     Returns ((sense t HIGH s)\<lparr>buttonPressTime := 0, longPressActive := False\<rparr>)"
  by (simp add: checkResetButton_def HIGH_def LOW_def)

lemma poll_append:
  "poll (xs @ ys) s = (case poll xs s of Restarts r \<Rightarrow> Restarts r | Returns s' \<Rightarrow> poll ys s')"
  by (induction xs arbitrary: s) (auto split: outcome.splits)

text \<open>
  While the button stays down and no sample is later than the threshold after the recorded
  press start, the monitor only watches: nothing but the clock and the pin levels moves.
\<close>

lemma held_within:
  assumes "buttonPressTime s \<noteq> 0" and "\<not> longPressActive s"
    and "\<forall>t \<in> set ts. t - buttonPressTime s \<le> RESET_HOLD_TIME"
  shows "\<exists>c p. poll (held ts) s = Returns (s\<lparr>clock := c, pins := p\<rparr>)"
  using assms
proof (induction ts arbitrary: s)
  case Nil
  have "poll (held []) s = Returns (s\<lparr>clock := clock s, pins := pins s\<rparr>)"
    by (simp add: held_def)
  then show ?case by blast
next
  case (Cons t ts)
  let ?s1 = "sense t LOW s"
  have step: "checkResetButton ?s1 = Returns ?s1"
    using Cons.prems by (simp add: press_continues)
  have "\<exists>c p. poll (held ts) ?s1 = Returns (?s1\<lparr>clock := c, pins := p\<rparr>)"
    using Cons.prems by (intro Cons.IH) simp_all
  then obtain c p where "poll (held ts) ?s1 = Returns (?s1\<lparr>clock := c, pins := p\<rparr>)"
    by blast
  moreover have "?s1\<lparr>clock := c, pins := p\<rparr> = s\<lparr>clock := c, pins := p\<rparr>"
    by (simp add: sense_def)
  ultimately have "poll (held (t # ts)) s = Returns (s\<lparr>clock := c, pins := p\<rparr>)"
    by (simp add: step held_def)
  then show ?case by blast
qed

text \<open>A press from the released state, watched up to its release.\<close>

lemma short_press:
  assumes "buttonPressTime s = 0" and "\<not> longPressActive s" and "t0 \<noteq> 0"
    and "\<forall>t \<in> set ts. t - t0 \<le> RESET_HOLD_TIME"
  shows "\<exists>c p. poll (held (t0 # ts) @ [(t1, HIGH)]) s = Returns (s\<lparr>clock := c, pins := p\<rparr>)"
proof -
  let ?s0 = "(sense t0 LOW s)\<lparr>buttonPressTime := t0\<rparr>"
  have first: "checkResetButton (sense t0 LOW s) = Returns ?s0"
    using assms(1) by (rule press_starts)
  have "\<exists>c p. poll (held ts) ?s0 = Returns (?s0\<lparr>clock := c, pins := p\<rparr>)"
    using assms by (intro held_within) simp_all
  then obtain c p where watch: "poll (held ts) ?s0 = Returns (?s0\<lparr>clock := c, pins := p\<rparr>)"
    by blast
  have "poll (held (t0 # ts) @ [(t1, HIGH)]) s =
          Returns (s\<lparr>clock := t1, pins := p(atoi (button_pin s) := HIGH)\<rparr>)"
    using assms(1,2) watch
    by (simp add: held_def first poll_append release_clears) (simp add: sense_def)
  then show ?thesis by blast
qed

text \<open>A press from the released state, watched until a sample comes later than the threshold.\<close>

lemma long_press_fires:
  assumes "buttonPressTime s = 0" and "\<not> longPressActive s" and "t0 \<noteq> 0"
    and "\<forall>t \<in> set ts. t - t0 \<le> RESET_HOLD_TIME" and "t1 - t0 > RESET_HOLD_TIME"
  shows "restarted (poll (held (t0 # ts @ [t1]) @ rest) s)"
    and "\<not> wifi_saved (state_of (poll (held (t0 # ts @ [t1]) @ rest) s))"
    and "nvs (state_of (poll (held (t0 # ts @ [t1]) @ rest) s)) = nvs s"
proof -
  let ?s0 = "(sense t0 LOW s)\<lparr>buttonPressTime := t0\<rparr>"
  have first: "checkResetButton (sense t0 LOW s) = Returns ?s0"
    using assms(1) by (rule press_starts)
  have "\<exists>c p. poll (held ts) ?s0 = Returns (?s0\<lparr>clock := c, pins := p\<rparr>)"
    using assms by (intro held_within) simp_all
  then obtain c p where watch: "poll (held ts) ?s0 = Returns (?s0\<lparr>clock := c, pins := p\<rparr>)"
    by blast
  let ?s1 = "?s0\<lparr>clock := c, pins := p\<rparr>"
  let ?s2 = "(sense t1 LOW ?s1)\<lparr>longPressActive := True\<rparr>"
  have fire: "checkResetButton (sense t1 LOW ?s1) = resetConfig ?s2"
    using assms(2,3,5) by (intro press_fires) (simp_all add: sense_def)
  have whole: "poll (held (t0 # ts @ [t1]) @ rest) s = resetConfig ?s2"
    using fire watch resetConfig_forgets(1) [of ?s2]
    by (cases "resetConfig ?s2") (simp_all add: held_def first poll_append)
  show "restarted (poll (held (t0 # ts @ [t1]) @ rest) s)"
    and "\<not> wifi_saved (state_of (poll (held (t0 # ts @ [t1]) @ rest) s))"
    and "nvs (state_of (poll (held (t0 # ts @ [t1]) @ rest) s)) = nvs s"
    unfolding whole by (simp_all add: resetConfig_forgets sense_def)
qed

section \<open>The claims\<close>

text \<open>
  Claim C1. At every boot the \<^verbatim>\<open>Preferences\<close> handle is closed when the version check
  starts (\<open>setupPowerPin_closes\<close>). If the version stored under the system-flags key differs from the compiled
  version (an absent key reads as the empty string, which differs), then after the check the
  operational-config namespace is empty, the network credentials are forgotten and the
  stored version is the compiled one. If the stored version is the compiled one, the check
  changes nothing: no persisted state, and no other state either.
\<close>

theorem version_guard:
  assumes "prefs s = None"
  shows "(nvs s ''system_flags'' VERSION_KEY \<noteq> Some FIRMWARE_VERSION \<longrightarrow>
            nvs (checkFirmwareVersion s) ''iot_config'' = Map.empty \<and>
            \<not> wifi_saved (checkFirmwareVersion s) \<and>
            nvs (checkFirmwareVersion s) ''system_flags'' VERSION_KEY = Some FIRMWARE_VERSION) \<and>
         (nvs s ''system_flags'' VERSION_KEY = Some FIRMWARE_VERSION \<longrightarrow>
            checkFirmwareVersion s = s)"
proof (intro conjI impI)
  assume differs: "nvs s ''system_flags'' VERSION_KEY \<noteq> Some FIRMWARE_VERSION"
  note after = checkFirmwareVersion_mismatch [OF assms differs]
  show "nvs (checkFirmwareVersion s) ''iot_config'' = Map.empty"
    by (simp add: after(1))
  show "\<not> wifi_saved (checkFirmwareVersion s)"
    by (simp add: after(2))
  show "nvs (checkFirmwareVersion s) ''system_flags'' VERSION_KEY = Some FIRMWARE_VERSION"
    by (simp add: after(1))
next
  assume "nvs s ''system_flags'' VERSION_KEY = Some FIRMWARE_VERSION"
  then show "checkFirmwareVersion s = s"
    by (rule checkFirmwareVersion_match [OF assms])
qed

theorem version_guard_witness:
  "prefs stale_device = None \<and>
   nvs stale_device ''system_flags'' VERSION_KEY \<noteq> Some FIRMWARE_VERSION \<and>
   nvs stale_device ''iot_config'' ''server'' = Some ''broker.lan'' \<and>
   nvs (checkFirmwareVersion stale_device) ''iot_config'' = Map.empty \<and>
   \<not> wifi_saved (checkFirmwareVersion stale_device) \<and>
   nvs (checkFirmwareVersion stale_device) ''system_flags'' VERSION_KEY = Some FIRMWARE_VERSION \<and>
   prefs current_device = None \<and>
   nvs current_device ''system_flags'' VERSION_KEY = Some FIRMWARE_VERSION \<and>
   checkFirmwareVersion current_device = current_device"
  using version_guard [of stale_device] version_guard [of current_device]
  by (simp add: stale_device_def current_device_def stale_flash_def current_flash_def
      power_up_def VERSION_KEY_def FIRMWARE_VERSION_def)

text \<open>
  Claim C2. Publishing \<^verbatim>\<open>"system_startup"\<close> while connected: if the button input reads
  HIGH (not held) and the startup power-off has not fired yet in this boot, the message is
  sent, then 500 ms pass, then the power-control output is driven low; if the button input
  reads LOW (held), the message is sent and no pin changes.
\<close>

theorem startup_power_off:
  assumes "client_connected s"
  shows "(\<not> firstMessageSent s \<and> digitalRead (atoi (button_pin s)) s = HIGH \<longrightarrow>
            trace (publishData ''system_startup'' s) =
              trace s @ [Publish (mqtt_topic s) (status_json ''system_startup''), Delay 500,
                         Write (atoi (power_pin s)) LOW, Delay 100] \<and>
            pins (publishData ''system_startup'' s) = (pins s)(atoi (power_pin s) := LOW)) \<and>
         (digitalRead (atoi (button_pin s)) s = LOW \<longrightarrow>
            trace (publishData ''system_startup'' s) =
              trace s @ [Publish (mqtt_topic s) (status_json ''system_startup'')] \<and>
            pins (publishData ''system_startup'' s) = pins s)"
  using assms
  by (simp add: publishData_unfold c_str_literals status_short digitalRead_def HIGH_def LOW_def)

theorem startup_power_off_witness:
  "client_connected online_device \<and> \<not> firstMessageSent online_device \<and>
   digitalRead (atoi (button_pin online_device)) online_device = HIGH \<and>
   trace (publishData ''system_startup'' online_device) =
     [Publish ''esp32'' (status_json ''system_startup''), Delay 500, Write 7 LOW, Delay 100] \<and>
   pins (publishData ''system_startup'' online_device) 7 = LOW \<and>
   client_connected online_held_device \<and>
   digitalRead (atoi (button_pin online_held_device)) online_held_device = LOW \<and>
   trace (publishData ''system_startup'' online_held_device) =
     [Publish ''esp32'' (status_json ''system_startup'')] \<and>
   pins (publishData ''system_startup'' online_held_device) = pins online_held_device"
  using startup_power_off [of online_device] startup_power_off [of online_held_device]
  by (simp add: online_device_def online_held_device_def current_device_def power_up_def
      atoi_default_pins digitalRead_def all_high_def HIGH_def LOW_def)

text \<open>
  Claim C3, as the code has it. The claim says that each of the seven fields is loaded on
  its own. The code loads the two pin fields on their own, and the five messaging fields
  as a group behind one guard (line 265): for a store whose values fit the buffers, the LED
  pin and the button pin each take their stored value when it is not empty and keep their
  in-memory value otherwise; if the stored server is not empty, the server takes it, and
  port, user and password take their stored values, or \<^verbatim>\<open>"1883"\<close>, \<^verbatim>\<open>""\<close> and \<^verbatim>\<open>""\<close>
  (their compiled defaults) when the key is absent, and the topic takes its stored value
  when the key is present; if no server is stored, or an empty one, all five messaging
  fields keep their in-memory values whatever is stored for them.
\<close>

theorem config_load:
  assumes "prefs s = None" and "store_fits (nvs s ''iot_config'')"
  shows "\<exists>s'. setup_load s = Some s' \<and>
     (let cfg = nvs s ''iot_config'' in
        led_pin s' = (if lookup_or cfg ''led_pin'' [] \<noteq> []
                      then lookup_or cfg ''led_pin'' [] else led_pin s) \<and>
        button_pin s' = (if lookup_or cfg ''button_pin'' [] \<noteq> []
                         then lookup_or cfg ''button_pin'' [] else button_pin s) \<and>
        (if lookup_or cfg ''server'' [] \<noteq> [] then
           mqtt_server s' = lookup_or cfg ''server'' [] \<and>
           mqtt_port s' = lookup_or cfg ''port'' ''1883'' \<and>
           mqtt_user s' = lookup_or cfg ''user'' [] \<and>
           mqtt_password s' = lookup_or cfg ''password'' [] \<and>
           (\<forall>v. cfg ''topic'' = Some v \<longrightarrow> mqtt_topic s' = v)
         else
           mqtt_server s' = mqtt_server s \<and> mqtt_port s' = mqtt_port s \<and>
           mqtt_user s' = mqtt_user s \<and> mqtt_password s' = mqtt_password s \<and>
           mqtt_topic s' = mqtt_topic s))"
  by (simp add: setup_load_unfold [OF assms] Let_def) (simp add: lookup_or_def)

theorem config_load_witness:
  "prefs current_device = None \<and> store_fits (nvs current_device ''iot_config'') \<and>
   map_option mqtt_server (setup_load current_device) = Some ''broker.lan'' \<and>
   map_option mqtt_port (setup_load current_device) = Some ''1883'' \<and>
   map_option mqtt_topic (setup_load current_device) = Some ''switch1'' \<and>
   map_option led_pin (setup_load current_device) = Some ''5'' \<and>
   map_option button_pin (setup_load current_device) = Some ''9''"
  using config_load [of current_device]
  by (auto simp: current_device_def current_flash_def stale_flash_def power_up_def
      store_fits_def value_fits_def lookup_or_def Let_def)

text \<open>
  The claim fails on a store that holds a topic and no server: the stored topic is
  \<^verbatim>\<open>"switch1"\<close>, and the loaded topic is the compiled \<^verbatim>\<open>"esp32"\<close>.
\<close>

theorem config_load_counterexample:
  "nvs topic_only_device ''iot_config'' ''topic'' = Some ''switch1'' \<and>
   map_option mqtt_topic (setup_load topic_only_device) = Some ''esp32''"
proof -
  have closed: "prefs topic_only_device = None"
    by (simp add: topic_only_device_def power_up_def)
  have fit: "store_fits (nvs topic_only_device ''iot_config'')"
    by (simp add: topic_only_device_def topic_only_flash_def power_up_def store_fits_def
        value_fits_def)
  show ?thesis
    by (simp add: setup_load_unfold [OF closed fit] Let_def lookup_or_def)
       (simp add: topic_only_device_def topic_only_flash_def power_up_def)
qed

text \<open>
  What a restart finds after a save, for any configuration that the buffers can hold: the
  pins come back unless they were saved empty, and the messaging fields come back only
  behind a saved server.
\<close>

lemma reload_after_save:
  assumes "fits s" and "prefs s = None"
  shows "\<exists>s'. boot_load (restart (save_config s)) = Some s' \<and>
           power_pin s' = (if power_pin s \<noteq> [] then power_pin s else ''7'') \<and>
           led_pin s' = (if led_pin s \<noteq> [] then led_pin s else ''8'') \<and>
           button_pin s' = (if button_pin s \<noteq> [] then button_pin s else ''9'') \<and>
           (if mqtt_server s \<noteq> [] then
              mqtt_server s' = mqtt_server s \<and> mqtt_port s' = mqtt_port s \<and>
              mqtt_user s' = mqtt_user s \<and> mqtt_password s' = mqtt_password s \<and>
              mqtt_topic s' = mqtt_topic s
            else
              mqtt_server s' = [] \<and> mqtt_port s' = ''1883'' \<and> mqtt_user s' = [] \<and>
              mqtt_password s' = [] \<and> mqtt_topic s' = ''esp32'')"
proof -
  define b where "b = restart (save_config s)"
  note saved = saved_lookups [OF assms(2)]
  have nvs_b: "nvs b = nvs (save_config s)" and closed_b: "prefs b = None"
    and fields_b: "power_pin b = ''7''" "led_pin b = ''8''" "button_pin b = ''9''"
      "mqtt_server b = []" "mqtt_port b = ''1883''" "mqtt_user b = []" "mqtt_password b = []"
      "mqtt_topic b = ''esp32''"
    by (simp_all add: b_def restart_def power_up_def)
  have fit_b: "store_fits (nvs b ''iot_config'')"
    using assms(1) by (simp add: nvs_b store_fits_def value_fits_def saved fits_def)
  then have pp_fit: "value_fits (nvs b ''iot_config'') ''power_pin'' 3"
    by (simp add: store_fits_def)
  obtain s1 where s1: "setupPowerPin b = Some s1" and s1_nvs: "nvs s1 = nvs b"
    and s1_prefs: "prefs s1 = None"
    and s1_pp: "power_pin s1 = (if power_pin s \<noteq> [] then power_pin s else ''7'')"
    and s1_rest: "led_pin s1 = ''8''" "button_pin s1 = ''9''"
      "mqtt_server s1 = []" "mqtt_port s1 = ''1883''" "mqtt_user s1 = []"
      "mqtt_password s1 = []" "mqtt_topic s1 = ''esp32''"
    by (simp add: setupPowerPin_unfold [OF closed_b pp_fit] Let_def nvs_b lookup_or_def saved
        pinMode_def digitalWrite_def closed_b fields_b)
  have fit_s1: "store_fits (nvs s1 ''iot_config'')"
    using fit_b by (simp add: s1_nvs)
  show ?thesis
    by (simp add: boot_load_def b_def [symmetric] s1 setup_load_unfold [OF s1_prefs fit_s1]
        Let_def s1_nvs nvs_b lookup_or_def saved s1_pp s1_rest)
qed

text \<open>
  Claim C4, as the code has it. The claim promises the round trip for every configuration.
  The code gives it for every configuration whose server and three pin fields are not
  empty: saving it (lines 349--358) and then, after a restart, reading the power pin
  (\<^verbatim>\<open>setupPowerPin\<close>) and loading the rest (lines 261--284) yields the eight fields as
  they were saved.
\<close>

theorem save_load_roundtrip:
  assumes "fits s" and "prefs s = None"
    and "mqtt_server s \<noteq> []" and "button_pin s \<noteq> []" and "led_pin s \<noteq> []"
    and "power_pin s \<noteq> []"
  shows "\<exists>s'. boot_load (restart (save_config s)) = Some s' \<and>
           mqtt_server s' = mqtt_server s \<and> mqtt_port s' = mqtt_port s \<and>
           mqtt_user s' = mqtt_user s \<and> mqtt_password s' = mqtt_password s \<and>
           mqtt_topic s' = mqtt_topic s \<and> button_pin s' = button_pin s \<and>
           led_pin s' = led_pin s \<and> power_pin s' = power_pin s"
  using reload_after_save [OF assms(1,2)] assms(3-6) by auto

theorem save_load_roundtrip_witness:
  "fits provisioned_device \<and> prefs provisioned_device = None \<and>
   mqtt_server provisioned_device \<noteq> [] \<and> button_pin provisioned_device \<noteq> [] \<and>
   led_pin provisioned_device \<noteq> [] \<and> power_pin provisioned_device \<noteq> [] \<and>
   map_option mqtt_server (boot_load (restart (save_config provisioned_device)))
     = Some ''mqtt.example.com'' \<and>
   map_option mqtt_topic (boot_load (restart (save_config provisioned_device)))
     = Some ''switch1'' \<and>
   map_option power_pin (boot_load (restart (save_config provisioned_device))) = Some ''4''"
  using save_load_roundtrip [of provisioned_device]
  by (auto simp: provisioned_device_def current_device_def power_up_def fits_def)

text \<open>
  The claim fails on a configuration with a topic and no server, which the operator can
  submit at the portal: the saved topic is \<^verbatim>\<open>"switch1"\<close>, and after the restart the
  topic is the compiled \<^verbatim>\<open>"esp32"\<close>.
\<close>

theorem save_load_roundtrip_counterexample:
  "mqtt_topic serverless_device = ''switch1'' \<and>
   map_option mqtt_topic (boot_load (restart (save_config serverless_device))) = Some ''esp32''"
proof -
  have "fits serverless_device" and "prefs serverless_device = None"
    and "mqtt_server serverless_device = []" and "mqtt_topic serverless_device = ''switch1''"
    by (simp_all add: serverless_device_def current_device_def power_up_def fits_def)
  then show ?thesis
    using reload_after_save [of serverless_device] by auto
qed

text \<open>
  Claim C5, as the code has it. The claim lets a press of exactly 5000 ms trigger the
  reset. The code fires on a sample taken strictly more than 5000 ms after the press start
  (line 460), measured on the 32-bit millisecond clock, and it takes a clock reading of 0
  for "no press recorded" (line 456). So, from the released state and for a press whose
  first sample is taken at a nonzero clock reading \<open>t0\<close>: as long as every sample of the
  held button is at most 5000 ms after \<open>t0\<close>, no reset happens, and the release leaves
  the monitor in the released state, with only the clock and the pin levels moved; a
  sample of the held button more than 5000 ms after \<open>t0\<close> triggers the reset, which
  forgets the network association, leaves the store as it was and restarts the device, so
  nothing follows it in that boot; and a press that comes after a release is timed from
  its own first sample, so it triggers a reset of its own when it is held long enough.
\<close>

theorem long_press:
  assumes "buttonPressTime s = 0" and "\<not> longPressActive s" and "t0 \<noteq> 0"
    and "\<forall>t \<in> set ts. t - t0 \<le> RESET_HOLD_TIME"
  shows "(\<exists>c p. poll (held (t0 # ts) @ [(t1, HIGH)]) s = Returns (s\<lparr>clock := c, pins := p\<rparr>)) \<and>
         (t2 - t0 > RESET_HOLD_TIME \<longrightarrow>
            restarted (poll (held (t0 # ts @ [t2]) @ rest) s) \<and>
            \<not> wifi_saved (state_of (poll (held (t0 # ts @ [t2]) @ rest) s)) \<and>
            nvs (state_of (poll (held (t0 # ts @ [t2]) @ rest) s)) = nvs s) \<and>
         (u0 \<noteq> 0 \<and> (\<forall>u \<in> set us. u - u0 \<le> RESET_HOLD_TIME) \<and> u1 - u0 > RESET_HOLD_TIME \<longrightarrow>
            restarted (poll (held (t0 # ts) @ [(t1, HIGH)] @ held (u0 # us @ [u1]) @ rest) s) \<and>
            \<not> wifi_saved
                (state_of (poll (held (t0 # ts) @ [(t1, HIGH)] @ held (u0 # us @ [u1]) @ rest) s)))"
proof (intro conjI impI)
  show short: "\<exists>c p. poll (held (t0 # ts) @ [(t1, HIGH)]) s = Returns (s\<lparr>clock := c, pins := p\<rparr>)"
    using assms by (rule short_press)
  {
    assume late: "t2 - t0 > RESET_HOLD_TIME"
    note fired = long_press_fires [OF assms late, of rest]
    show "restarted (poll (held (t0 # ts @ [t2]) @ rest) s)"
      by (rule fired(1))
    show "\<not> wifi_saved (state_of (poll (held (t0 # ts @ [t2]) @ rest) s))"
      by (rule fired(2))
    show "nvs (state_of (poll (held (t0 # ts @ [t2]) @ rest) s)) = nvs s"
      by (rule fired(3))
  }
  {
    assume again: "u0 \<noteq> 0 \<and> (\<forall>u \<in> set us. u - u0 \<le> RESET_HOLD_TIME) \<and> u1 - u0 > RESET_HOLD_TIME"
    from short obtain c p where
      first: "poll (held (t0 # ts) @ [(t1, HIGH)]) s = Returns (s\<lparr>clock := c, pins := p\<rparr>)"
      by blast
    let ?s = "s\<lparr>clock := c, pins := p\<rparr>"
    have released: "buttonPressTime ?s = 0" "\<not> longPressActive ?s"
      using assms(1,2) by simp_all
    have split: "poll (held (t0 # ts) @ [(t1, HIGH)] @ held (u0 # us @ [u1]) @ rest) s =
                   poll (held (u0 # us @ [u1]) @ rest) ?s"
      using first poll_append [of "held (t0 # ts) @ [(t1, HIGH)]" "held (u0 # us @ [u1]) @ rest" s]
      by simp
    note fired = long_press_fires [OF released, of u0 us u1 rest]
    show "restarted (poll (held (t0 # ts) @ [(t1, HIGH)] @ held (u0 # us @ [u1]) @ rest) s)"
      unfolding split using again by (intro fired(1)) simp_all
    show "\<not> wifi_saved
            (state_of (poll (held (t0 # ts) @ [(t1, HIGH)] @ held (u0 # us @ [u1]) @ rest) s))"
      unfolding split using again by (intro fired(2)) simp_all
  }
qed

theorem long_press_witness:
  "buttonPressTime current_device = 0 \<and> \<not> longPressActive current_device \<and>
   (1000 :: 32 word) \<noteq> 0 \<and> (3500 :: 32 word) - 1000 \<le> RESET_HOLD_TIME \<and>
   (6000 :: 32 word) - 1000 \<le> RESET_HOLD_TIME \<and>
   \<not> restarted (poll (held [1000, 3500, 6000] @ [(6100, HIGH)]) current_device) \<and>
   (6001 :: 32 word) - 1000 > RESET_HOLD_TIME \<and>
   restarted (poll (held [1000, 3500, 6000, 6001]) current_device) \<and>
   \<not> wifi_saved (state_of (poll (held [1000, 3500, 6000, 6001]) current_device)) \<and>
   (7000 :: 32 word) \<noteq> 0 \<and> (12001 :: 32 word) - 7000 > RESET_HOLD_TIME \<and>
   restarted (poll (held [1000, 3500, 6000] @ [(6100, HIGH)] @ held [7000, 12001])
                current_device)"
  using long_press [of current_device 1000 "[3500, 6000]" 6100 6001 "[]" 7000 "[]" 12001]
  by (auto simp: current_device_def power_up_def RESET_HOLD_TIME_def)

text \<open>
  The claim fails on a button sampled down at 1000 ms, 3500 ms and 6000 ms and up at
  6100 ms: at the third sample it has been held for exactly the threshold, and no reset
  happens.
\<close>

theorem long_press_counterexample:
  "(6000 :: 32 word) - 1000 = RESET_HOLD_TIME \<and>
   \<not> restarted (poll (held [1000, 3500, 6000] @ [(6100, HIGH)]) current_device)"
  using short_press [of current_device 1000 "[3500, 6000]" 6100]
  by (auto simp: current_device_def power_up_def RESET_HOLD_TIME_def)

text \<open>
  The command handler compares with \<^verbatim>\<open>strcmp\<close> (lines 205--214), which reads the copied
  payload up to its first NUL byte. On that C string the dispatch is exact and
  case-sensitive.
\<close>

lemma callback_dispatch_c_str:
  "(c_str payload = ''clear_all_data'' \<longrightarrow> callback topic payload s = clearAllData s) \<and>
   (c_str payload = ''on'' \<longrightarrow>
      callback topic payload s =
        Returns (s\<lparr>pins := (pins s)(atoi (power_pin s) := HIGH),
                   trace := trace s @ Write (atoi (power_pin s)) HIGH #
                     (if client_connected s then [Publish (mqtt_topic s) (status_json ''on'')]
                      else [])\<rparr>)) \<and>
   (c_str payload = ''off'' \<longrightarrow>
      callback topic payload s =
        Returns (s\<lparr>pins := (pins s)(atoi (power_pin s) := LOW),
                   trace := trace s @ Write (atoi (power_pin s)) LOW #
                     (if client_connected s then [Publish (mqtt_topic s) (status_json ''off'')]
                      else [])\<rparr>)) \<and>
   (c_str payload \<notin> {''clear_all_data'', ''on'', ''off''} \<longrightarrow>
      callback topic payload s = Returns s)"
  by (simp add: callback_c_str publish_after_write)

lemma c_str_nul_free: "NUL \<notin> set payload \<Longrightarrow> c_str payload = payload"
  by (induction payload) (auto simp: c_str_def)

text \<open>
  For every payload that holds no NUL byte the handler matches the whole payload, as
  lines 197--201 (which copy all \<open>length\<close> bytes) set out to do: the three commands are
  recognized by exact match and every other payload leaves the state as it is.
\<close>

lemma callback_dispatch_nul_free:
  assumes "NUL \<notin> set payload"
  shows "(payload = ''clear_all_data'' \<longrightarrow> callback topic payload s = clearAllData s) \<and>
   (payload = ''on'' \<longrightarrow>
      callback topic payload s =
        Returns (s\<lparr>pins := (pins s)(atoi (power_pin s) := HIGH),
                   trace := trace s @ Write (atoi (power_pin s)) HIGH #
                     (if client_connected s then [Publish (mqtt_topic s) (status_json ''on'')]
                      else [])\<rparr>)) \<and>
   (payload = ''off'' \<longrightarrow>
      callback topic payload s =
        Returns (s\<lparr>pins := (pins s)(atoi (power_pin s) := LOW),
                   trace := trace s @ Write (atoi (power_pin s)) LOW #
                     (if client_connected s then [Publish (mqtt_topic s) (status_json ''off'')]
                      else [])\<rparr>)) \<and>
   (payload \<notin> {''clear_all_data'', ''on'', ''off''} \<longrightarrow>
      callback topic payload s = Returns s)"
  using callback_dispatch_c_str [of payload topic s] c_str_nul_free [OF assms] by simp

text \<open>
  Claim C6. The claim: the handler recognizes exactly the three payloads
  \<^verbatim>\<open>"clear_all_data"\<close>, \<^verbatim>\<open>"on"\<close> and \<^verbatim>\<open>"off"\<close> by case-sensitive exact match, and
  every other payload leaves all state unchanged. The code misses it on payloads that hold
  a NUL byte, because \<^verbatim>\<open>strcmp\<close> stops there. The handler is run on the six bytes
  \<^verbatim>\<open>on\<close>, NUL, \<^verbatim>\<open>off\<close>, with a power-control output that is low: the payload is none of
  the three recognized ones, and the handler does not leave the state unchanged but drives
  the power-control output high.
\<close>

theorem command_dispatch_nul_payload:
  "''on'' @ [NUL] @ ''off'' \<notin> {''clear_all_data'', ''on'', ''off''} \<and>
   pins latched_device 7 = LOW \<and>
   callback ''esp32/control'' (''on'' @ [NUL] @ ''off'') latched_device \<noteq> Returns latched_device \<and>
   pins (state_of (callback ''esp32/control'' (''on'' @ [NUL] @ ''off'') latched_device)) 7 = HIGH"
proof -
  let ?after = "publishData ''on'' (digitalWrite 7 HIGH latched_device)"
  have fields: "power_pin latched_device = ''7''" "pins latched_device 7 = LOW"
    by (simp_all add: latched_device_def online_device_def current_device_def power_up_def LOW_def)
  have "c_str (''on'' @ [NUL] @ ''off'') = ''on''"
    by (simp add: c_str_def NUL_def)
  then have handled: "callback ''esp32/control'' (''on'' @ [NUL] @ ''off'') latched_device =
      Returns ?after"
    by (simp add: callback_c_str fields atoi_default_pins)
  have high: "pins ?after 7 = HIGH"
    by (simp add: publish_after_write)
  then have "?after \<noteq> latched_device"
    using fields(2) by (auto simp: HIGH_def LOW_def)
  then show ?thesis
    using high fields(2) unfolding handled by simp
qed

text \<open>
  Claim C7. The handle is closed whenever the command handler or the button monitor runs.
  The remote wipe \<^verbatim>\<open>clearAllData\<close> then leaves both namespaces empty and the network
  association forgotten when it restarts the device, whatever the connection state and the
  pin levels are. The local reset \<^verbatim>\<open>resetConfig\<close> forgets the network association and
  restarts, and leaves the whole store, so both namespaces, as it was.
\<close>

theorem wipe_and_reset:
  assumes "prefs s = None"
  shows "restarted (clearAllData s) \<and>
         nvs (state_of (clearAllData s)) ''iot_config'' = Map.empty \<and>
         nvs (state_of (clearAllData s)) ''system_flags'' = Map.empty \<and>
         \<not> wifi_saved (state_of (clearAllData s)) \<and>
         restarted (resetConfig s) \<and>
         nvs (state_of (resetConfig s)) = nvs s \<and>
         \<not> wifi_saved (state_of (resetConfig s))"
  using clearAllData_wipes [OF assms] resetConfig_forgets [of s] by simp

theorem wipe_and_reset_witness:
  "prefs online_device = None \<and> wifi_saved online_device \<and>
   nvs online_device ''iot_config'' ''server'' = Some ''broker.lan'' \<and>
   nvs online_device ''system_flags'' ''fw_version'' = Some ''1.0.0'' \<and>
   restarted (clearAllData online_device) \<and>
   nvs (state_of (clearAllData online_device)) ''iot_config'' = Map.empty \<and>
   nvs (state_of (clearAllData online_device)) ''system_flags'' = Map.empty \<and>
   \<not> wifi_saved (state_of (clearAllData online_device)) \<and>
   restarted (resetConfig online_device) \<and>
   nvs (state_of (resetConfig online_device)) ''iot_config'' ''server'' = Some ''broker.lan'' \<and>
   nvs (state_of (resetConfig online_device)) ''system_flags'' ''fw_version'' = Some ''1.0.0'' \<and>
   \<not> wifi_saved (state_of (resetConfig online_device))"
  using wipe_and_reset [of online_device]
  by (simp add: online_device_def current_device_def current_flash_def stale_flash_def
      power_up_def)

text \<open>
  Claim C8. Called while disconnected, with a topic that its 40-byte buffer can hold,
  \<^verbatim>\<open>connectMQTT\<close> makes at most three handshake attempts. As soon as one succeeds it
  subscribes to the topic followed by \<^verbatim>\<open>/control\<close> and returns true; after each failed
  attempt it waits 2000 ms; after the third failure it returns false.
\<close>

theorem connect_bounded:
  assumes "\<not> client_connected s" and "length (mqtt_topic s) < 40"
  shows "connectMQTT net s =
     (let attempt = Handshake ''ESP32C2_Client'' (mqtt_user s) (mqtt_password s);
          subscribed = Subscribe (mqtt_topic s @ ''/control'')
      in if net 0 then
           (True, s\<lparr>client_connected := True, trace := trace s @ [attempt, subscribed]\<rparr>)
         else if net 1 then
           (True, s\<lparr>client_connected := True, clock := clock s + 2000,
                    trace := trace s @ [attempt, Delay 2000, attempt, subscribed]\<rparr>)
         else if net 2 then
           (True, s\<lparr>client_connected := True, clock := clock s + 4000,
                    trace := trace s @ [attempt, Delay 2000, attempt, Delay 2000,
                                        attempt, subscribed]\<rparr>)
         else
           (False, s\<lparr>clock := clock s + 6000,
                     trace := trace s @ [attempt, Delay 2000, attempt, Delay 2000,
                                         attempt, Delay 2000]\<rparr>))"
  using assms
  by (simp add: connectMQTT_cases control_topic_short Let_def)

theorem connect_bounded_witness:
  "\<not> client_connected current_device \<and> length (mqtt_topic current_device) < 40 \<and>
   \<not> second_try 0 \<and> second_try 1 \<and>
   connectMQTT second_try current_device =
     (True, current_device\<lparr>client_connected := True, clock := 2000,
              trace := [Handshake ''ESP32C2_Client'' [] [], Delay 2000,
                        Handshake ''ESP32C2_Client'' [] [], Subscribe ''esp32/control'']\<rparr>)"
  using connect_bounded [of current_device second_try]
  by (simp add: current_device_def power_up_def second_try_def Let_def)

text \<open>
  Claim C9. While the client is not connected, the publish operation does nothing at all:
  the device is exactly as before, so nothing is sent, no pin changes and the
  first-message latch keeps its value, also for the status \<^verbatim>\<open>"system_startup"\<close>.
\<close>

theorem publish_disconnected:
  assumes "\<not> client_connected s"
  shows "publishData status s = s"
  using assms by (simp add: publishData_def)

theorem publish_disconnected_witness:
  "\<not> client_connected current_device \<and>
   publishData ''system_startup'' current_device = current_device \<and>
   trace (publishData ''system_startup'' current_device) = [] \<and>
   \<not> firstMessageSent (publishData ''system_startup'' current_device)"
  using publish_disconnected [of current_device "''system_startup''"]
  by (simp add: current_device_def power_up_def)

text \<open>
  Claim C10. A call of the publish operation sets the first-message latch exactly when the
  startup power-off fires in it, that is, when the client is connected, the status is
  \<^verbatim>\<open>"system_startup"\<close>, the button reads HIGH and the latch was not set; the publish
  operation changes a pin level in no other case. Once set, the latch stays set through
  every iteration of \<^verbatim>\<open>loop\<close>, whatever the button, the network and the inbound
  commands do, so a later publish of \<^verbatim>\<open>"system_startup"\<close> changes no pin level.
\<close>

theorem startup_power_off_once:
  "(firstMessageSent (publishData status s) \<longleftrightarrow>
      firstMessageSent s \<or>
      (client_connected s \<and> c_str status = ''system_startup'' \<and>
       digitalRead (atoi (button_pin s)) s = HIGH)) \<and>
   (pins (publishData status s) \<noteq> pins s \<longrightarrow>
      \<not> firstMessageSent s \<and> firstMessageSent (publishData status s)) \<and>
   (firstMessageSent s \<longrightarrow>
      (\<forall>events s'. run events s = Returns s' \<longrightarrow>
         firstMessageSent s' \<and>
         pins (publishData ''system_startup'' s') = pins s'))"
proof (intro conjI impI allI)
  show "firstMessageSent (publishData status s) \<longleftrightarrow>
      firstMessageSent s \<or>
      (client_connected s \<and> c_str status = ''system_startup'' \<and>
       digitalRead (atoi (button_pin s)) s = HIGH)"
    by (rule publishData_latch)
next
  assume changed: "pins (publishData status s) \<noteq> pins s"
  show "\<not> firstMessageSent s" and "firstMessageSent (publishData status s)"
    using publishData_pins [OF changed] by simp_all
next
  fix events s'
  assume "firstMessageSent s" and "run events s = Returns s'"
  then have latched: "firstMessageSent s'"
    by (rule run_keeps_latch)
  then show "firstMessageSent s'" .
  from latched show "pins (publishData ''system_startup'' s') = pins s'"
    by (simp add: publishData_unfold)
qed

lemma returned: "\<not> restarted out \<Longrightarrow> out = Returns (state_of out)"
  by (cases out) simp_all

lemma quiet_then_switch_on: "\<not> restarted (run [quiet, switch_on] latched_device)"
  by (simp add: loop_def meet_def sense_def quiet_def switch_on_def latched_device_def
      online_device_def current_device_def power_up_def checkResetButton_def digitalRead_def
      atoi_default_pins LOW_def client_loop_def callback_c_str c_str_def NUL_def Let_def)

theorem startup_power_off_once_witness:
  "firstMessageSent latched_device \<and>
   \<not> restarted (run [quiet, switch_on] latched_device) \<and>
   firstMessageSent (state_of (run [quiet, switch_on] latched_device)) \<and>
   pins (publishData ''system_startup'' (state_of (run [quiet, switch_on] latched_device))) =
     pins (state_of (run [quiet, switch_on] latched_device)) \<and>
   \<not> firstMessageSent online_device \<and>
   pins (publishData ''system_startup'' online_device) \<noteq> pins online_device \<and>
   firstMessageSent (publishData ''system_startup'' online_device)"
proof -
  have latched: "firstMessageSent latched_device"
    by (simp add: latched_device_def)
  have fresh: "\<not> firstMessageSent online_device" "client_connected online_device"
    "pins online_device (atoi (button_pin online_device))"
    "pins online_device (atoi (power_pin online_device))"
    by (simp_all add: online_device_def current_device_def power_up_def atoi_default_pins
        all_high_def)
  have changed: "pins (publishData ''system_startup'' online_device) \<noteq> pins online_device"
    using fresh by (auto simp: publishData_unfold c_str_literals fun_eq_iff)
  show ?thesis
    using startup_power_off_once [of "''system_startup''" online_device]
      startup_power_off_once [of "''on''" latched_device]
      returned [OF quiet_then_switch_on] quiet_then_switch_on latched fresh(1) changed
    by metis
qed

end
